theory Spec2Isabelle
  imports Complex_Main "HOL-Library.List_Lexorder"
begin

section \<open>Python values used by main.py\<close>

text \<open>
  A Python \<^verbatim>\<open>str\<close> is a sequence of Unicode code points, so it is modelled as a list of
  integers. The labels of the ledger are Korean words; they are written here by
  their code points. A Python \<^verbatim>\<open>float\<close> is modelled as a real number: rounding and the
  non-finite values are outside the model.
\<close>

type_synonym str = "int list"

text \<open>The exceptions that the modelled functions raise themselves.\<close>

datatype py_error =
    ValueError_sheet_empty
  | ValueError_header_not_found
  | ValueError_number_not_found
  | ValueError_formula_text
  | ValueError_not_numeric
  | ValueError_date
  | ValueError_float
  | IndexError

text \<open>\<^verbatim>\<open>str.isspace\<close> for one code point, which is also what \<^verbatim>\<open>\s\<close> matches.\<close>

definition py_isspace :: "int \<Rightarrow> bool" where
  "py_isspace c \<longleftrightarrow>
     (9 \<le> c \<and> c \<le> 13) \<or> (28 \<le> c \<and> c \<le> 32) \<or> c = 133 \<or> c = 160 \<or> c = 5760 \<or>
     (8192 \<le> c \<and> c \<le> 8202) \<or> c = 8232 \<or> c = 8233 \<or> c = 8239 \<or> c = 8287 \<or> c = 12288"

definition py_strip :: "str \<Rightarrow> str" where
  "py_strip s = rev (dropWhile py_isspace (rev (dropWhile py_isspace s)))"

text \<open>
  \<^verbatim>\<open>str.lower\<close> and \<^verbatim>\<open>str.upper\<close> on the ASCII letters. The other cased letters of
  Unicode are left as they are: none of them lowers to a code point of \<^verbatim>\<open>loc\<close> or of
  a Korean label, and none of them raises to a word equal to \<^verbatim>\<open>BTC\<close>.
\<close>

definition py_lower :: "str \<Rightarrow> str" where
  "py_lower s = map (\<lambda>c. if 65 \<le> c \<and> c \<le> 90 then c + 32 else c) s"

definition py_upper :: "str \<Rightarrow> str" where
  "py_upper s = map (\<lambda>c. if 97 \<le> c \<and> c \<le> 122 then c - 32 else c) s"

fun starts_with :: "'a list \<Rightarrow> 'a list \<Rightarrow> bool" where
  "starts_with [] ys = True"
| "starts_with (x # xs) [] = False"
| "starts_with (x # xs) (y # ys) = (x = y \<and> starts_with xs ys)"

text \<open>\<^verbatim>\<open>needle in hay\<close> for two strings.\<close>

fun py_in :: "'a list \<Rightarrow> 'a list \<Rightarrow> bool" where
  "py_in needle [] = starts_with needle []"
| "py_in needle (y # ys) = (starts_with needle (y # ys) \<or> py_in needle ys)"

text \<open>
  A loop whose body may \<^verbatim>\<open>return\<close>: the result of the first iteration that returns.
\<close>

fun first_some :: "('a \<Rightarrow> 'b option) \<Rightarrow> 'a list \<Rightarrow> 'b option" where
  "first_some f [] = None"
| "first_some f (x # xs) = (case f x of Some y \<Rightarrow> Some y | None \<Rightarrow> first_some f xs)"

section \<open>Label matching\<close>

definition norm_label :: "str \<Rightarrow> str" where
  "norm_label t = filter (\<lambda>c. \<not> py_isspace c) (py_lower (py_strip t))"

text \<open>The words of the labels, by code point.\<close>

definition w_date :: str where "w_date = [45216, 51676]"
definition w_fill_date :: str where "w_fill_date = [52404, 44208, 51068, 51088]"
definition w_loc :: str where "w_loc = [108, 111, 99]"
definition w_avg :: str where "w_avg = [54217, 45800]"
definition w_high :: str where "w_high = [44256, 44032]"
definition w_total_qty :: str where "w_total_qty = [52509, 49688, 47049]"

definition is_date_label :: "str \<Rightarrow> bool" where
  "is_date_label t = (let n = norm_label t in py_in w_date n \<or> py_in w_fill_date n)"

definition is_loc_avg_label :: "str \<Rightarrow> bool" where
  "is_loc_avg_label t =
     (let n = norm_label t in py_in (w_loc @ w_avg) n \<or> (py_in w_loc n \<and> py_in w_avg n))"

definition is_loc_high_label :: "str \<Rightarrow> bool" where
  "is_loc_high_label t =
     (let n = norm_label t in py_in (w_loc @ w_high) n \<or> (py_in w_loc n \<and> py_in w_high n))"

definition is_total_qty_label :: "str \<Rightarrow> bool" where
  "is_total_qty_label t = (let n = norm_label t in py_in w_total_qty n)"

section \<open>The anchor resolver: find_header_row_and_columns\<close>

text \<open>
  The grid is the list of rows that \<^verbatim>\<open>get_all_values\<close> returned; rows and columns are
  counted from 1. The resolver returns the tuple
  \<^verbatim>\<open>(header_row, date_col, loc_avg_col, loc_high_col)\<close>.
\<close>

type_synonym grid = "str list list"

record loc_scan =
  loc_avg :: "nat option"
  loc_avg_row :: nat
  loc_high :: "nat option"
  loc_high_row :: nat

text \<open>The body of the loop over \<^verbatim>\<open>cc\<close> in the first phase.\<close>

definition scan_cell :: "str list \<Rightarrow> nat \<Rightarrow> nat \<Rightarrow> loc_scan \<Rightarrow> loc_scan" where
  "scan_cell scan_row rr cc s =
     (let cell = (if cc - 1 < length scan_row then scan_row ! (cc - 1) else []);
          s1 = (if loc_avg s = None \<and> is_loc_avg_label cell
                then s\<lparr>loc_avg := Some cc, loc_avg_row := rr\<rparr> else s);
          s2 = (if loc_high s1 = None \<and> is_loc_high_label cell
                then s1\<lparr>loc_high := Some cc, loc_high_row := rr\<rparr> else s1)
      in s2)"

text \<open>The loop over \<^verbatim>\<open>rr\<close>, which returns after the first row that leaves both found.\<close>

fun scan_rows ::
  "grid \<Rightarrow> nat \<Rightarrow> nat \<Rightarrow> nat \<Rightarrow> nat list \<Rightarrow> loc_scan \<Rightarrow> (nat \<times> nat \<times> nat \<times> nat) option" where
  "scan_rows values max_col r c [] s = None"
| "scan_rows values max_col r c (rr # rrs) s =
     (let s' = fold (scan_cell (values ! (rr - 1)) rr) [c + 1 ..< min (c + 14) max_col + 1] s
      in case (loc_avg s', loc_high s') of
           (Some a, Some h) \<Rightarrow> Some (max r (max (loc_avg_row s') (loc_high_row s')), c, a, h)
         | _ \<Rightarrow> scan_rows values max_col r c rrs s')"

definition window_scan ::
  "grid \<Rightarrow> nat \<Rightarrow> nat \<Rightarrow> nat \<Rightarrow> nat \<Rightarrow> (nat \<times> nat \<times> nat \<times> nat) option" where
  "window_scan values max_col row_count r c =
     scan_rows values max_col r c [r ..< min (r + 2) row_count + 1]
       \<lparr>loc_avg = None, loc_avg_row = r, loc_high = None, loc_high_row = r\<rparr>"

text \<open>Phase 1: the date label first, then the two LOC labels around it.\<close>

definition date_first :: "grid \<Rightarrow> nat \<Rightarrow> nat \<Rightarrow> (nat \<times> nat \<times> nat \<times> nat) option" where
  "date_first values max_col row_count =
     first_some (\<lambda>r.
         let row = values ! (r - 1) in
         first_some (\<lambda>c.
             if \<not> is_date_label (row ! (c - 1)) then None
             else window_scan values max_col row_count r c)
           [1 ..< length row + 1])
       [1 ..< row_count + 1]"

record label_scan =
  loc_avg_col :: "nat option"
  loc_high_col :: "nat option"
  avg_row :: "nat option"
  high_row :: "nat option"

text \<open>Phase 2, the body of the loop over \<^verbatim>\<open>c\<close>.\<close>

definition label_cell :: "str list \<Rightarrow> nat \<Rightarrow> nat \<Rightarrow> label_scan \<Rightarrow> label_scan" where
  "label_cell row r c s =
     (let cell = row ! (c - 1);
          s1 = (if loc_avg_col s = None \<and> is_loc_avg_label cell
                then s\<lparr>loc_avg_col := Some c, avg_row := Some r\<rparr> else s);
          s2 = (if loc_high_col s1 = None \<and> is_loc_high_label cell
                then s1\<lparr>loc_high_col := Some c, high_row := Some r\<rparr> else s1)
      in s2)"

text \<open>Phase 2, the loop over \<^verbatim>\<open>r\<close>, which breaks after the row that leaves both found.\<close>

fun label_rows :: "grid \<Rightarrow> nat list \<Rightarrow> label_scan \<Rightarrow> label_scan" where
  "label_rows values [] s = s"
| "label_rows values (r # rs) s =
     (let row = values ! (r - 1);
          s' = fold (label_cell row r) [1 ..< length row + 1] s
      in if loc_avg_col s' \<noteq> None \<and> loc_high_col s' \<noteq> None then s'
         else label_rows values rs s')"

text \<open>\<^verbatim>\<open>x or rr\<close> for an optional row number.\<close>

definition or_row :: "nat option \<Rightarrow> nat \<Rightarrow> nat" where
  "or_row x rr = (case x of None \<Rightarrow> rr | Some v \<Rightarrow> if v = 0 then rr else v)"

definition label_first :: "grid \<Rightarrow> nat \<Rightarrow> (nat \<times> nat \<times> nat \<times> nat) option" where
  "label_first values row_count =
     (let s = label_rows values [1 ..< row_count + 1]
                \<lparr>loc_avg_col = None, loc_high_col = None, avg_row = None, high_row = None\<rparr>
      in case (loc_avg_col s, loc_high_col s) of
           (Some a, Some h) \<Rightarrow>
             first_some (\<lambda>base_r.
                 first_some (\<lambda>rr.
                     if rr < 1 \<or> rr > row_count then None
                     else let scan_row = values ! (rr - 1) in
                       first_some (\<lambda>c.
                           if is_date_label (scan_row ! (c - 1))
                           then Some (max rr (max (or_row (avg_row s) rr) (or_row (high_row s) rr)),
                                      c, a, h)
                           else None)
                         [1 ..< length scan_row + 1])
                   [base_r, base_r - 1, base_r + 1])
               (List.map_filter (\<lambda>x. x) [avg_row s, high_row s])
         | _ \<Rightarrow> None)"

definition find_header_row_and_columns :: "grid \<Rightarrow> py_error + (nat \<times> nat \<times> nat \<times> nat)" where
  "find_header_row_and_columns values =
     (if values = [] then Inl ValueError_sheet_empty
      else
        let max_col = fold max (map length values) 0;
            row_count = length values
        in case date_first values max_col row_count of
             Some a \<Rightarrow> Inr a
           | None \<Rightarrow>
               (case label_first values row_count of
                  Some a \<Rightarrow> Inr a
                | None \<Rightarrow> Inl ValueError_header_not_found))"

text \<open>
  \<^verbatim>\<open>find_total_qty_column\<close>: the label in the header row or a neighbour of it, else
  the fixed offset from the LOC high column.
\<close>

definition find_total_qty_column :: "grid \<Rightarrow> nat \<Rightarrow> nat \<Rightarrow> nat" where
  "find_total_qty_column values header_row loc_high_c =
     (case first_some (\<lambda>rr.
              if rr < 1 \<or> rr > length values then None
              else let row = values ! (rr - 1) in
                first_some (\<lambda>c. if is_total_qty_label (row ! (c - 1)) then Some c else None)
                  [1 ..< length row + 1])
            [header_row, header_row - 1, header_row + 1] of
        Some c \<Rightarrow> c
      | None \<Rightarrow> loc_high_c + 4)"

section \<open>Calendar dates and normalize_date_value\<close>

text \<open>
  A \<^verbatim>\<open>datetime.date\<close> is its year, month and day. The constructor raises ValueError
  for a day that does not exist.
\<close>

datatype date = Date (d_year: nat) (d_month: nat) (d_day: nat)

definition is_leap :: "nat \<Rightarrow> bool" where
  "is_leap y \<longleftrightarrow> y mod 4 = 0 \<and> (y mod 100 \<noteq> 0 \<or> y mod 400 = 0)"

definition days_in_month :: "nat \<Rightarrow> nat \<Rightarrow> nat" where
  "days_in_month y m =
     (if m = 2 then (if is_leap y then 29 else 28)
      else if m = 4 \<or> m = 6 \<or> m = 9 \<or> m = 11 then 30 else 31)"

definition py_date :: "nat \<Rightarrow> nat \<Rightarrow> nat \<Rightarrow> py_error + date" where
  "py_date y m d =
     (if 1 \<le> y \<and> y \<le> 9999 \<and> 1 \<le> m \<and> m \<le> 12 \<and> 1 \<le> d \<and> d \<le> days_in_month y m
      then Inr (Date y m d) else Inl ValueError_date)"

text \<open>
  \<^verbatim>\<open>datetime.strptime\<close> for the four formats of the source, on ASCII digits. A directive
  accepts the texts of its regular expression: \<^verbatim>\<open>%Y\<close> four digits, \<^verbatim>\<open>%m\<close> one or two
  digits from 1 to 12, \<^verbatim>\<open>%d\<close> one or two digits from 1 to 31 or a space and one digit,
  \<^verbatim>\<open>%H\<close> up to 23, \<^verbatim>\<open>%M\<close> up to 59, \<^verbatim>\<open>%S\<close> up to 61; a space of the format accepts
  a run of whitespace; the whole text must be used up, and the date and the time must
  exist. The result is \<^verbatim>\<open>None\<close> where the library raises ValueError, which the source
  catches.
\<close>

definition is_digit :: "int \<Rightarrow> bool" where
  "is_digit c \<longleftrightarrow> 48 \<le> c \<and> c \<le> 57"

definition int_of_digits :: "str \<Rightarrow> nat" where
  "int_of_digits ds = foldl (\<lambda>n c. 10 * n + nat (c - 48)) 0 ds"

definition digits_upto :: "nat \<Rightarrow> nat \<Rightarrow> str \<Rightarrow> bool" where
  "digits_upto lo hi s \<longleftrightarrow>
     list_all is_digit s \<and> (length s = 1 \<or> length s = 2) \<and>
     lo \<le> int_of_digits s \<and> int_of_digits s \<le> hi"

definition day_directive :: "str \<Rightarrow> nat option" where
  "day_directive s =
     (if digits_upto 1 31 s then Some (int_of_digits s)
      else case s of
             [sp, d] \<Rightarrow> if sp = 32 \<and> 49 \<le> d \<and> d \<le> 57 then Some (nat (d - 48)) else None
           | _ \<Rightarrow> None)"

definition split_at :: "int \<Rightarrow> str \<Rightarrow> (str \<times> str) option" where
  "split_at sep s =
     (if sep \<in> set s
      then Some (takeWhile (\<lambda>c. c \<noteq> sep) s, tl (dropWhile (\<lambda>c. c \<noteq> sep) s))
      else None)"

text \<open>Year, separator, month, separator: the year, the month and the text that is left.\<close>

definition year_month :: "int \<Rightarrow> str \<Rightarrow> (nat \<times> nat \<times> str) option" where
  "year_month sep s =
     (let y = take 4 s in
      if length y = 4 \<and> list_all is_digit y then
        (case drop 4 s of
           [] \<Rightarrow> None
         | c # rest \<Rightarrow>
             if c \<noteq> sep then None
             else (case split_at sep rest of
                     None \<Rightarrow> None
                   | Some (m, after) \<Rightarrow>
                       if digits_upto 1 12 m then Some (int_of_digits y, int_of_digits m, after)
                       else None))
      else None)"

definition date_or_none :: "nat \<Rightarrow> nat \<Rightarrow> nat \<Rightarrow> date option" where
  "date_or_none y m d = (case py_date y m d of Inl e \<Rightarrow> None | Inr v \<Rightarrow> Some v)"

text \<open>The formats \<^verbatim>\<open>%Y-%m-%d\<close>, \<^verbatim>\<open>%Y/%m/%d\<close> and \<^verbatim>\<open>%Y.%m.%d\<close>, by their separator.\<close>

definition strptime_date :: "int \<Rightarrow> str \<Rightarrow> date option" where
  "strptime_date sep s =
     (case year_month sep s of
        None \<Rightarrow> None
      | Some (y, m, after) \<Rightarrow>
          (case day_directive after of None \<Rightarrow> None | Some d \<Rightarrow> date_or_none y m d))"

definition time_of_day :: "str \<Rightarrow> bool" where
  "time_of_day s =
     (case split_at 58 s of
        None \<Rightarrow> False
      | Some (h, rest) \<Rightarrow>
          (case split_at 58 rest of
             None \<Rightarrow> False
           | Some (mi, sec) \<Rightarrow>
               digits_upto 0 23 h \<and> digits_upto 0 59 mi \<and> digits_upto 0 61 sec \<and>
               int_of_digits sec \<le> 59))"

text \<open>The format \<^verbatim>\<open>%Y-%m-%d %H:%M:%S\<close>.\<close>

definition strptime_datetime :: "str \<Rightarrow> date option" where
  "strptime_datetime s =
     (case year_month 45 s of
        None \<Rightarrow> None
      | Some (y, m, after) \<Rightarrow>
          (let n = (case after of c # _ \<Rightarrow> if c = 32 then 2 else length (takeWhile is_digit after)
                    | [] \<Rightarrow> 0);
               d = take n after;
               rest = drop n after
           in case day_directive d of
                None \<Rightarrow> None
              | Some dd \<Rightarrow>
                  if rest \<noteq> [] \<and> py_isspace (hd rest) \<and> time_of_day (dropWhile py_isspace rest)
                  then date_or_none y m dd else None))"

text \<open>
  The last resort of the source, \<^verbatim>\<open>^(\d{4})-(\d{1,2})-(\d{1,2})$\<close>: the groups, when
  the text matches.
\<close>

definition match_ymd :: "str \<Rightarrow> (nat \<times> nat \<times> nat) option" where
  "match_ymd s =
     (let y = take 4 s in
      if length y = 4 \<and> list_all is_digit y then
        (case drop 4 s of
           [] \<Rightarrow> None
         | c # rest \<Rightarrow>
             if c \<noteq> 45 then None
             else (case split_at 45 rest of
                     None \<Rightarrow> None
                   | Some (m, d) \<Rightarrow>
                       if list_all is_digit m \<and> (length m = 1 \<or> length m = 2) \<and>
                          list_all is_digit d \<and> (length d = 1 \<or> length d = 2)
                       then Some (int_of_digits y, int_of_digits m, int_of_digits d)
                       else None))
      else None)"

definition normalize_date_value :: "str \<Rightarrow> py_error + date option" where
  "normalize_date_value v =
     (let s = py_strip v in
      if s = [] then Inr None
      else case first_some (\<lambda>parse. parse s)
                  [strptime_date 45, strptime_datetime, strptime_date 47, strptime_date 46] of
             Some d \<Rightarrow> Inr (Some d)
           | None \<Rightarrow>
               (case match_ymd s of
                  Some (y, m, d) \<Rightarrow>
                    (case py_date y m d of Inl e \<Rightarrow> Inl e | Inr v \<Rightarrow> Inr (Some v))
                | None \<Rightarrow> Inr None))"

text \<open>The decimal text of a number, and the text \<^verbatim>\<open>YYYY-MM-DD\<close> of a date.\<close>

fun str_of_nat :: "nat \<Rightarrow> str" where
  "str_of_nat n = (if n < 10 then [48 + int n] else str_of_nat (n div 10) @ [48 + int (n mod 10)])"

definition two_digits :: "nat \<Rightarrow> str" where
  "two_digits n = (if n < 10 then 48 # str_of_nat n else str_of_nat n)"

definition date_text :: "nat \<Rightarrow> nat \<Rightarrow> nat \<Rightarrow> str" where
  "date_text y m d = str_of_nat y @ [45] @ two_digits m @ [45] @ two_digits d"

section \<open>The worksheet\<close>

text \<open>
  The remote worksheet is a store of cells, addressed by row and column from 1; the A1
  text that the source builds with \<^verbatim>\<open>col_to_a1\<close> names the cell \<^verbatim>\<open>(row, col)\<close>. A cell
  is blank, a text or a number. A write changes the cell it names and no other (the
  recalculation of formulas by the service is outside the model), and every write is
  recorded, oldest first. \<^verbatim>\<open>ws_format\<close> is the text that the service shows for a number
  in a cell.
\<close>

datatype cell = CBlank | CText str | CNumber real

record worksheet =
  ws_cells :: "cell list list"
  ws_format :: "nat \<Rightarrow> nat \<Rightarrow> real \<Rightarrow> str"
  ws_updates :: "(nat \<times> nat \<times> cell) list"

definition cell_value :: "worksheet \<Rightarrow> nat \<Rightarrow> nat \<Rightarrow> cell" where
  "cell_value ws r c =
     (if 0 < r \<and> r \<le> length (ws_cells ws) \<and> 0 < c \<and> c \<le> length (ws_cells ws ! (r - 1))
      then ws_cells ws ! (r - 1) ! (c - 1) else CBlank)"

definition shown :: "(real \<Rightarrow> str) \<Rightarrow> cell \<Rightarrow> str" where
  "shown fmt x = (case x of CBlank \<Rightarrow> [] | CText s \<Rightarrow> s | CNumber v \<Rightarrow> fmt v)"

text \<open>\<^verbatim>\<open>str(ws.acell(a1).value or "")\<close>: the text that a cell shows.\<close>

definition acell_text :: "worksheet \<Rightarrow> nat \<Rightarrow> nat \<Rightarrow> str" where
  "acell_text ws r c = shown (ws_format ws r c) (cell_value ws r c)"

text \<open>\<^verbatim>\<open>ws.get_all_values()\<close>: the text of every cell, row by row.\<close>

definition get_all_values :: "worksheet \<Rightarrow> grid" where
  "get_all_values ws =
     map (\<lambda>r. map (\<lambda>c. acell_text ws r c) [1 ..< length (ws_cells ws ! (r - 1)) + 1])
       [1 ..< length (ws_cells ws) + 1]"

text \<open>\<^verbatim>\<open>ws.update(range_name=a1, values=[[v]])\<close> for one cell.\<close>

definition update_cell :: "worksheet \<Rightarrow> nat \<Rightarrow> nat \<Rightarrow> cell \<Rightarrow> worksheet" where
  "update_cell ws r c v =
     (let rows = ws_cells ws @ replicate (r - length (ws_cells ws)) [];
          row = rows ! (r - 1);
          row' = (row @ replicate (c - length row) CBlank)[c - 1 := v]
      in ws\<lparr>ws_cells := rows[r - 1 := row'], ws_updates := ws_updates ws @ [(r, c, v)]\<rparr>)"

subsection \<open>Numbers in cells\<close>

text \<open>
  \<^verbatim>\<open>parse_float\<close>: the commas go, then the first match of
  \<^verbatim>\<open>[-+]?\d+(?:\.\d+)?\<close> is the number (ASCII digits).
\<close>

definition decimal_at :: "str \<Rightarrow> real option" where
  "decimal_at s =
     (let signed = (s \<noteq> [] \<and> (hd s = 45 \<or> hd s = 43));
          body = (if signed then tl s else s);
          ds = takeWhile is_digit body;
          after = drop (length ds) body;
          fs = (case after of c # t \<Rightarrow> if c = 46 then takeWhile is_digit t else [] | [] \<Rightarrow> []);
          v = real (int_of_digits ds) + real (int_of_digits fs) / 10 ^ length fs
      in if ds = [] then None
         else Some (if signed \<and> hd s = 45 then - v else v))"

fun first_decimal :: "str \<Rightarrow> real option" where
  "first_decimal [] = None"
| "first_decimal (c # t) =
     (case decimal_at (c # t) of Some v \<Rightarrow> Some v | None \<Rightarrow> first_decimal t)"

definition parse_float :: "str \<Rightarrow> py_error + real" where
  "parse_float s =
     (case first_decimal (filter (\<lambda>c. c \<noteq> 44) s) of
        None \<Rightarrow> Inl ValueError_number_not_found
      | Some v \<Rightarrow> Inr v)"

text \<open>\<^verbatim>\<open>get_numeric_cell_value\<close>: the unformatted value of a cell, as a number.\<close>

definition get_numeric_cell_value :: "worksheet \<Rightarrow> nat \<Rightarrow> nat \<Rightarrow> py_error + real" where
  "get_numeric_cell_value ws r c =
     (case cell_value ws r c of
        CNumber v \<Rightarrow> Inr v
      | CText raw \<Rightarrow>
          (let s = py_strip raw in
           if starts_with [61] s then Inl ValueError_formula_text else parse_float s)
      | CBlank \<Rightarrow> Inl ValueError_not_numeric)"

definition get_numeric_cell_value_or_none :: "worksheet \<Rightarrow> nat \<Rightarrow> nat \<Rightarrow> real option" where
  "get_numeric_cell_value_or_none ws r c =
     (case get_numeric_cell_value ws r c of Inl e \<Rightarrow> None | Inr v \<Rightarrow> Some v)"

section \<open>The row resolver: find_or_create_date_row\<close>

text \<open>\<^verbatim>\<open>row[date_col - 1] if len(row) >= date_col else ""\<close>, with Python's index \<^verbatim>\<open>-1\<close>.\<close>

definition snapshot_date_cell :: "str list \<Rightarrow> nat \<Rightarrow> py_error + str" where
  "snapshot_date_cell row date_col =
     (if length row \<ge> date_col then
        (if date_col = 0 then (if row = [] then Inl IndexError else Inr (last row))
         else Inr (row ! (date_col - 1)))
      else Inr [])"

text \<open>The first loop: the row of the snapshot whose date is the target date.\<close>

fun find_existing_row :: "grid \<Rightarrow> nat \<Rightarrow> date \<Rightarrow> nat list \<Rightarrow> py_error + nat option" where
  "find_existing_row values date_col target_date [] = Inr None"
| "find_existing_row values date_col target_date (r_idx # rest) =
     (case snapshot_date_cell (values ! (r_idx - 1)) date_col of
        Inl e \<Rightarrow> Inl e
      | Inr raw \<Rightarrow>
          (case normalize_date_value raw of
             Inl e \<Rightarrow> Inl e
           | Inr parsed \<Rightarrow>
               if parsed = Some target_date then Inr (Some r_idx)
               else find_existing_row values date_col target_date rest))"

text \<open>
  The second loop reads the live worksheet, one date cell at a time, down to the first
  one that shows nothing. It ends because the worksheet has finitely many rows.
\<close>

function first_empty_row :: "worksheet \<Rightarrow> nat \<Rightarrow> nat \<Rightarrow> nat" where
  "first_empty_row ws date_col r_idx =
     (if py_strip (acell_text ws r_idx date_col) = [] then r_idx
      else first_empty_row ws date_col (r_idx + 1))"
  by pat_completeness auto
termination
proof (relation "measure (\<lambda>(ws, date_col, r_idx). length (ws_cells ws) + 1 - r_idx)")
  show "wf (measure (\<lambda>(ws, date_col, r_idx). length (ws_cells ws) + 1 - r_idx))"
    by simp
next
  fix ws :: worksheet and date_col r_idx :: nat
  assume "py_strip (acell_text ws r_idx date_col) \<noteq> []"
  then have "r_idx \<le> length (ws_cells ws)"
    by (auto simp: acell_text_def cell_value_def shown_def py_strip_def split: if_splits)
  then show "((ws, date_col, r_idx + 1), (ws, date_col, r_idx))
      \<in> measure (\<lambda>(ws, date_col, r_idx). length (ws_cells ws) + 1 - r_idx)"
    by simp
qed

declare first_empty_row.simps [simp del]

definition find_or_create_date_row ::
  "worksheet \<Rightarrow> grid \<Rightarrow> nat \<Rightarrow> nat \<Rightarrow> date \<Rightarrow> str \<Rightarrow> (py_error + nat) \<times> worksheet" where
  "find_or_create_date_row ws values header_row date_col target_date target_date_text =
     (case find_existing_row values date_col target_date [header_row + 1 ..< length values + 1] of
        Inl e \<Rightarrow> (Inl e, ws)
      | Inr (Some r_idx) \<Rightarrow> (Inr r_idx, ws)
      | Inr None \<Rightarrow>
          (let r_idx = first_empty_row ws date_col (header_row + 1)
           in (Inr r_idx, update_cell ws r_idx date_col (CText target_date_text))))"

section \<open>Writing one fill into the ledger\<close>

text \<open>
  Of \<^verbatim>\<open>FillResult\<close> the numbers read back from the worksheet are kept; the title of the
  spreadsheet and the currency, which come from the spreadsheet and the symbol, are left
  out.
\<close>

record FillMessage =
  raw_text :: str
  symbol :: str
  trade_side :: str
  fill_price :: real
  fill_qty :: real
  fill_month :: nat
  fill_day :: nat

record FillResult =
  avg_price_r6 :: real
  current_price_b2 :: real
  buy_loc_avg_r9 :: real
  buy_loc_high_r10 :: real
  sell_all_r11 :: real
  sell_qty_current_round :: real

text \<open>An aware \<^verbatim>\<open>datetime\<close>: its instant, and its calendar date in the bot's time zone.\<close>

record datetime =
  instant :: int
  local_date :: date

record UpbitFill =
  fill_id :: str
  market :: str
  trade_time :: datetime
  side :: str
  price :: real
  qty :: real
  amount :: real

definition w_buy :: str where "w_buy = [47588, 49688]"
definition w_bid :: str where "w_bid = [98, 105, 100]"
definition w_price :: str where "w_price = [112, 114, 105, 99, 101]"
definition w_BTC :: str where "w_BTC = [66, 84, 67]"

text \<open>
  \<^verbatim>\<open>get_fill_result_for_row\<close>: the cells R6, B2, R9, R10 and R11 in this order, each of
  which may raise, and the total quantity of the row, which may not.
\<close>

text \<open>
  A call that may raise, followed by the rest of the function: the exception is passed
  on, or the rest runs with the value.
\<close>

definition raising :: "py_error + 'a \<Rightarrow> ('a \<Rightarrow> py_error + 'b) \<Rightarrow> py_error + 'b" where
  "raising m f = (case m of Inl e \<Rightarrow> Inl e | Inr v \<Rightarrow> f v)"

definition get_fill_result_for_row :: "worksheet \<Rightarrow> nat \<Rightarrow> nat \<Rightarrow> py_error + FillResult" where
  "get_fill_result_for_row ws target_row total_qty_col =
     (let sell_qty = get_numeric_cell_value_or_none ws target_row total_qty_col in
      raising (get_numeric_cell_value ws 6 18) (\<lambda>r6.
      raising (get_numeric_cell_value ws 2 2) (\<lambda>b2.
      raising (get_numeric_cell_value ws 9 18) (\<lambda>r9.
      raising (get_numeric_cell_value ws 10 18) (\<lambda>r10.
      raising (get_numeric_cell_value ws 11 18) (\<lambda>r11.
        Inr \<lparr>avg_price_r6 = r6, current_price_b2 = b2, buy_loc_avg_r9 = r9,
             buy_loc_high_r10 = r10, sell_all_r11 = r11,
             sell_qty_current_round = (case sell_qty of Some v \<Rightarrow> v | None \<Rightarrow> 0)\<rparr>))))))"

definition returned :: "py_error + FillResult \<Rightarrow> py_error + FillResult option" where
  "returned x = (case x of Inl e \<Rightarrow> Inl e | Inr v \<Rightarrow> Inr (Some v))"

text \<open>
  \<^verbatim>\<open>process_fill_to_sheet\<close>, the brokerage path, on the worksheet that the spreadsheet
  of the symbol resolves to (resolving it and the local backup touch no cell). \<^verbatim>\<open>year\<close>
  is the current year. The result is what the call returns or raises, with the worksheet
  as the call leaves it.
\<close>

definition process_fill_to_sheet ::
  "FillMessage \<Rightarrow> nat \<Rightarrow> worksheet \<Rightarrow> (py_error + FillResult option) \<times> worksheet" where
  "process_fill_to_sheet msg year ws =
     (if trade_side msg \<noteq> w_buy then (Inr None, ws)
      else if fill_qty msg < 0 then (Inr None, ws)
      else
        let values = get_all_values ws in
        (case find_header_row_and_columns values of
           Inl e \<Rightarrow> (Inl e, ws)
         | Inr (header_row, date_col, loc_avg_c, loc_high_c) \<Rightarrow>
             let total_qty_col = find_total_qty_column values header_row loc_high_c in
             (case py_date year (fill_month msg) (fill_day msg) of
                Inl e \<Rightarrow> (Inl e, ws)
              | Inr target_date \<Rightarrow>
                  let target_date_text = date_text year (fill_month msg) (fill_day msg) in
                  (case find_or_create_date_row ws values header_row date_col
                          target_date target_date_text of
                     (Inl e, ws1) \<Rightarrow> (Inl e, ws1)
                   | (Inr target_row, ws1) \<Rightarrow>
                       (case get_numeric_cell_value ws1 6 18 of
                          Inl e \<Rightarrow> (Inl e, ws1)
                        | Inr avg_price \<Rightarrow>
                            let price_col = (if fill_price msg \<le> avg_price then loc_avg_c
                                             else loc_high_c);
                                qty_col = price_col + 1;
                                ws2 = update_cell ws1 target_row price_col
                                        (CNumber (fill_price msg));
                                ws3 = update_cell ws2 target_row qty_col (CNumber (fill_qty msg))
                            in (returned (get_fill_result_for_row ws3 target_row total_qty_col),
                                ws3))))))"

text \<open>\<^verbatim>\<open>process_upbit_fill_to_sheet\<close>, the exchange path.\<close>

definition process_upbit_fill_to_sheet ::
  "UpbitFill \<Rightarrow> worksheet \<Rightarrow> (py_error + FillResult option) \<times> worksheet" where
  "process_upbit_fill_to_sheet fill ws =
     (if side fill \<noteq> w_bid then (Inr None, ws)
      else
        let values = get_all_values ws in
        (case find_header_row_and_columns values of
           Inl e \<Rightarrow> (Inl e, ws)
         | Inr (header_row, date_col, loc_avg_c, loc_high_c) \<Rightarrow>
            let total_qty_col = find_total_qty_column values header_row loc_high_c in
            (case get_numeric_cell_value ws 3 2 of
               Inl e \<Rightarrow> (Inl e, ws)
             | Inr half_round_usd \<Rightarrow>
            (case get_numeric_cell_value ws 6 18 of
               Inl e \<Rightarrow> (Inl e, ws)
             | Inr avg_price \<Rightarrow>
                let ratio_half = (if half_round_usd > 0 then amount fill / half_round_usd else 0);
                    ratio_full = (if half_round_usd > 0 then amount fill / (half_round_usd * 2)
                                  else 0);
                    target_date = local_date (trade_time fill);
                    target_date_text =
                      date_text (d_year target_date) (d_month target_date) (d_day target_date)
                in
                if 0.8 \<le> ratio_full \<and> ratio_full \<le> 1.2 then
                  (case find_or_create_date_row ws values header_row date_col
                          target_date target_date_text of
                     (Inl e, ws1) \<Rightarrow> (Inl e, ws1)
                   | (Inr target_row, ws1) \<Rightarrow>
                       let half_qty = qty fill / 2;
                           ws2 = update_cell ws1 target_row loc_avg_c (CNumber (price fill));
                           ws3 = update_cell ws2 target_row (loc_avg_c + 1) (CNumber half_qty);
                           ws4 = update_cell ws3 target_row loc_high_c (CNumber (price fill));
                           ws5 = update_cell ws4 target_row (loc_high_c + 1) (CNumber half_qty)
                       in (returned (get_fill_result_for_row ws5 target_row total_qty_col), ws5))
                else if 0.8 \<le> ratio_half \<and> ratio_half \<le> 1.2 then
                  (case find_or_create_date_row ws values header_row date_col
                          target_date target_date_text of
                     (Inl e, ws1) \<Rightarrow> (Inl e, ws1)
                   | (Inr target_row, ws1) \<Rightarrow>
                       let price_col = (if price fill > avg_price then loc_high_c else loc_avg_c);
                           ws2 = update_cell ws1 target_row price_col (CNumber (price fill));
                           ws3 = update_cell ws2 target_row (price_col + 1) (CNumber (qty fill))
                       in (returned (get_fill_result_for_row ws3 target_row total_qty_col), ws3))
                else (Inr None, ws)))))"

section \<open>The exchange trade history: fetch_upbit_fills_for_date\<close>

text \<open>
  A field of a row of the response: absent (missing, null, empty or zero, all of which
  \<^verbatim>\<open>x or 0\<close> and \<^verbatim>\<open>not x\<close> treat alike), given with the value that \<^verbatim>\<open>float\<close> or
  \<^verbatim>\<open>fromisoformat\<close> reads from it, or malformed, in which case they raise ValueError.
\<close>

datatype 'a field = Absent | Given 'a | Malformed

record raw_order =
  done_at :: "datetime field"
  created_at :: "datetime field"
  o_market :: str
  o_side :: str
  ord_type :: str
  executed_volume :: "real field"
  executed_funds :: "real field"
  o_price :: "real field"
  uuid :: "str option"

text \<open>\<^verbatim>\<open>float(x or 0)\<close>.\<close>

definition float_or_0 :: "real field \<Rightarrow> py_error + real" where
  "float_or_0 x = (case x of Absent \<Rightarrow> Inr 0 | Given v \<Rightarrow> Inr v | Malformed \<Rightarrow> Inl ValueError_float)"

text \<open>The timestamp in the bot's time zone, \<^verbatim>\<open>None\<close> when the field is absent.\<close>

definition parse_ts :: "datetime field \<Rightarrow> py_error + datetime option" where
  "parse_ts x =
     (case x of Absent \<Rightarrow> Inr None | Given v \<Rightarrow> Inr (Some v) | Malformed \<Rightarrow> Inl ValueError_date)"

text \<open>\<^verbatim>\<open>market.split("-")[-1].upper() if "-" in market else market.upper()\<close>.\<close>

definition base_asset_of :: "str \<Rightarrow> str" where
  "base_asset_of m =
     (if 45 \<in> set m then py_upper (rev (takeWhile (\<lambda>c. c \<noteq> 45) (rev m))) else py_upper m)"

text \<open>
  The body of the loop over the rows of a page: \<^verbatim>\<open>None\<close> where the source continues
  with the next row, the fill where it appends one. \<^verbatim>\<open>synth_id\<close> is the text of the
  f-string that stands in for a missing \<^verbatim>\<open>uuid\<close>.
\<close>

definition row_to_fill ::
  "(str \<Rightarrow> datetime \<Rightarrow> real \<Rightarrow> real \<Rightarrow> str) \<Rightarrow> date \<Rightarrow> str \<Rightarrow> str \<Rightarrow> raw_order \<Rightarrow>
     py_error + UpbitFill option" where
  "row_to_fill synth_id target_date market_filter market_asset_filter row =
     (if done_at row = Absent \<and> created_at row = Absent then Inr None
      else
        raising (parse_ts (done_at row)) (\<lambda>done_dt.
        raising (parse_ts (created_at row)) (\<lambda>created_dt.
        let done_date = map_option local_date done_dt;
            created_date = map_option local_date created_dt
        in
        if Some target_date \<noteq> done_date \<and> Some target_date \<noteq> created_date then Inr None
        else
          let mkt = o_market row;
              base_asset = base_asset_of mkt
          in
          if base_asset \<noteq> w_BTC then Inr None
          else if market_filter \<noteq> [] \<and> mkt \<noteq> market_filter \<and>
                  (if market_asset_filter \<noteq> [] then base_asset \<noteq> py_upper market_asset_filter
                   else True)
          then Inr None
          else if o_side row \<noteq> w_bid then Inr None
          else
            raising (float_or_0 (executed_volume row)) (\<lambda>qty.
            raising (float_or_0 (executed_funds row)) (\<lambda>executed_funds.
            raising (float_or_0 (o_price row)) (\<lambda>raw_price.
            if qty \<le> 0 then Inr None
            else
              let amount =
                    (if o_side row = w_bid \<and> ord_type row = w_price \<and> raw_price > 0 then raw_price
                     else if executed_funds > 0 then executed_funds
                     else if raw_price > 0 then raw_price * qty else 0)
              in
              if amount \<le> 0 then Inr None
              else
                let price =
                      (if o_side row = w_bid \<and> ord_type row = w_price then amount / qty
                       else if raw_price > 0 then raw_price else amount / qty);
                    trade_dt = (case done_dt of Some t \<Rightarrow> t | None \<Rightarrow> the created_dt);
                    fill_id = (case uuid row of Some u \<Rightarrow> u
                               | None \<Rightarrow> synth_id mkt trade_dt qty price)
                in Inr (Some \<lparr>fill_id = fill_id, market = mkt, trade_time = trade_dt,
                               side = o_side row, price = price, qty = qty,
                               amount = amount\<rparr>)))))))"

text \<open>The loop over the rows of one page, appending to \<^verbatim>\<open>out\<close>.\<close>

fun rows_to_fills ::
  "(raw_order \<Rightarrow> py_error + UpbitFill option) \<Rightarrow> raw_order list \<Rightarrow> UpbitFill list \<Rightarrow>
     py_error + UpbitFill list" where
  "rows_to_fills f [] out = Inr out"
| "rows_to_fills f (row # rows) out =
     (case f row of
        Inl e \<Rightarrow> Inl e
      | Inr None \<Rightarrow> rows_to_fills f rows out
      | Inr (Some x) \<Rightarrow> rows_to_fills f rows (out @ [x]))"

text \<open>
  The loop over the pages: \<^verbatim>\<open>pages n\<close> is the list of rows that the exchange answers
  for page \<^verbatim>\<open>n\<close> (a request that fails raises, which is outside the model).
\<close>

function fetch_pages ::
  "(raw_order \<Rightarrow> py_error + UpbitFill option) \<Rightarrow> (nat \<Rightarrow> raw_order list) \<Rightarrow> int \<Rightarrow> nat \<Rightarrow>
     UpbitFill list \<Rightarrow> py_error + UpbitFill list" where
  "fetch_pages f pages max_pages page out =
     (if int page > max_pages then Inr out
      else let rows = pages page in
        if rows = [] then Inr out
        else (case rows_to_fills f rows out of
                Inl e \<Rightarrow> Inl e
              | Inr out' \<Rightarrow> fetch_pages f pages max_pages (page + 1) out'))"
  by pat_completeness auto
termination
  by (relation "measure (\<lambda>(f, pages, max_pages, page, out). nat (max_pages + 1 - int page))") auto

declare fetch_pages.simps [simp del]

definition fetch_upbit_fills_for_date ::
  "(str \<Rightarrow> datetime \<Rightarrow> real \<Rightarrow> real \<Rightarrow> str) \<Rightarrow> (nat \<Rightarrow> raw_order list) \<Rightarrow> int \<Rightarrow>
     date \<Rightarrow> str \<Rightarrow> str \<Rightarrow> py_error + UpbitFill list" where
  "fetch_upbit_fills_for_date synth_id pages max_pages target_date market_filter market_asset_filter =
     fetch_pages (row_to_fill synth_id target_date market_filter market_asset_filter)
       pages max_pages 1 []"

section \<open>Reconciliation: run_upbit_sync_once\<close>

record bot_state =
  last_update_id :: int
  processed_upbit_fill_ids :: "str list"

text \<open>The fills that one call forwards to the ledger, in the order of the loop.\<close>

definition new_fills :: "bool \<Rightarrow> UpbitFill list \<Rightarrow> str set \<Rightarrow> UpbitFill list" where
  "new_fills explicit_date fills processed_ids =
     (if explicit_date then fills else filter (\<lambda>f. fill_id f \<notin> processed_ids) fills)"

definition forwarded :: "bool \<Rightarrow> UpbitFill list \<Rightarrow> str set \<Rightarrow> UpbitFill list" where
  "forwarded explicit_date fills processed_ids =
     sort_key (\<lambda>x. instant (trade_time x)) (new_fills explicit_date fills processed_ids)"

record sync_acc =
  processed_count :: nat
  written_count :: nat
  last_result :: "FillResult option"
  processed_ids :: "str set"

text \<open>The loop over the forwarded fills; an exception of a fill ends the call.\<close>

fun sync_loop :: "UpbitFill list \<Rightarrow> sync_acc \<Rightarrow> worksheet \<Rightarrow> (py_error + sync_acc) \<times> worksheet" where
  "sync_loop [] acc ws = (Inr acc, ws)"
| "sync_loop (fill # rest) acc ws =
     (case process_upbit_fill_to_sheet fill ws of
        (Inl e, ws') \<Rightarrow> (Inl e, ws')
      | (Inr result, ws') \<Rightarrow>
          sync_loop rest
            \<lparr>processed_count = processed_count acc + 1,
             written_count = (if result \<noteq> None then written_count acc + 1 else written_count acc),
             last_result = (if result \<noteq> None then result else last_result acc),
             processed_ids = insert (fill_id fill) (processed_ids acc)\<rparr>
            ws')"

text \<open>\<^verbatim>\<open>list(sorted(processed_ids))[-1000:]\<close>.\<close>

definition last_1000_sorted :: "str set \<Rightarrow> str list" where
  "last_1000_sorted ids =
     (let xs = sorted_list_of_set ids in drop (length xs - 1000) xs)"

text \<open>
  \<^verbatim>\<open>run_upbit_sync_once\<close>: the counts and the last result that it returns, with the
  state and the worksheet as it leaves them. An exception leaves the state as it was.
\<close>

definition run_upbit_sync_once ::
  "(str \<Rightarrow> datetime \<Rightarrow> real \<Rightarrow> real \<Rightarrow> str) \<Rightarrow> (nat \<Rightarrow> raw_order list) \<Rightarrow> int \<Rightarrow>
     date \<Rightarrow> str \<Rightarrow> str \<Rightarrow> bool \<Rightarrow> bot_state \<Rightarrow> worksheet \<Rightarrow>
     (py_error + (nat \<times> nat \<times> FillResult option)) \<times> bot_state \<times> worksheet" where
  "run_upbit_sync_once synth_id pages max_pages target_date upbit_market upbit_market_asset
       explicit_date state ws =
     (case fetch_upbit_fills_for_date synth_id pages max_pages target_date
             upbit_market upbit_market_asset of
        Inl e \<Rightarrow> (Inl e, state, ws)
      | Inr fills \<Rightarrow>
          let ids = set (processed_upbit_fill_ids state) in
          (case sync_loop (forwarded explicit_date fills ids)
                  \<lparr>processed_count = 0, written_count = 0, last_result = None,
                   processed_ids = ids\<rparr> ws of
             (Inl e, ws') \<Rightarrow> (Inl e, state, ws')
           | (Inr acc, ws') \<Rightarrow>
               (Inr (processed_count acc, written_count acc, last_result acc),
                state\<lparr>processed_upbit_fill_ids := last_1000_sorted (processed_ids acc)\<rparr>,
                ws')))"

section \<open>Notions used to state the properties\<close>

subsection \<open>The window of the first phase, as the specification describes it\<close>

text \<open>
  The cell of the grid at a row and a column, empty where the row is too short; the cells
  of the window around a date label at \<^verbatim>\<open>(r, c)\<close> in the order of the scan; and the first
  cell of a list whose text satisfies a label test.
\<close>

definition cell_at :: "grid \<Rightarrow> nat \<Rightarrow> nat \<Rightarrow> str" where
  "cell_at values rr cc =
     (let scan_row = values ! (rr - 1)
      in if cc - 1 < length scan_row then scan_row ! (cc - 1) else [])"

definition row_cells :: "nat \<Rightarrow> nat \<Rightarrow> nat list \<Rightarrow> (nat \<times> nat) list" where
  "row_cells max_col c rrs =
     concat (map (\<lambda>rr. map (Pair rr) [c + 1 ..< min (c + 14) max_col + 1]) rrs)"

definition window_cells :: "nat \<Rightarrow> nat \<Rightarrow> nat \<Rightarrow> nat \<Rightarrow> (nat \<times> nat) list" where
  "window_cells max_col row_count r c = row_cells max_col c [r ..< min (r + 2) row_count + 1]"

definition first_label :: "(str \<Rightarrow> bool) \<Rightarrow> grid \<Rightarrow> (nat \<times> nat) list \<Rightarrow> (nat \<times> nat) option" where
  "first_label P values cells = find (\<lambda>p. P (cell_at values (fst p) (snd p))) cells"

text \<open>
  The anchor that the specification builds from the date label at \<^verbatim>\<open>(r, c)\<close> and the two
  matches, each a row and a column.
\<close>

definition anchor_of ::
  "nat \<Rightarrow> nat \<Rightarrow> (nat \<times> nat) option \<Rightarrow> (nat \<times> nat) option \<Rightarrow> (nat \<times> nat \<times> nat \<times> nat) option" where
  "anchor_of r c fa fh =
     (case (fa, fh) of
        (Some (ra, a), Some (rh, h)) \<Rightarrow> Some (max r (max ra rh), c, a, h)
      | _ \<Rightarrow> None)"

text \<open>What a state of the scan has found so far, as a row and a column.\<close>

definition found_avg :: "loc_scan \<Rightarrow> (nat \<times> nat) option" where
  "found_avg s = map_option (Pair (loc_avg_row s)) (loc_avg s)"

definition found_high :: "loc_scan \<Rightarrow> (nat \<times> nat) option" where
  "found_high s = map_option (Pair (loc_high_row s)) (loc_high s)"

definition or_else :: "'a option \<Rightarrow> 'a option \<Rightarrow> 'a option" where
  "or_else x y = (case x of Some v \<Rightarrow> Some v | None \<Rightarrow> y)"

subsection \<open>Columns that hold a label\<close>

definition col_has :: "(str \<Rightarrow> bool) \<Rightarrow> grid \<Rightarrow> nat \<Rightarrow> bool" where
  "col_has P values c \<longleftrightarrow> (\<exists>row\<in>set values. 0 < c \<and> c \<le> length row \<and> P (row ! (c - 1)))"

text \<open>Some column of the grid holds a cell with each of the two LOC labels.\<close>

definition shared_label_column :: "grid \<Rightarrow> bool" where
  "shared_label_column values \<longleftrightarrow>
     (\<exists>c\<in>set [1 ..< fold max (map length values) 0 + 1].
        col_has is_loc_avg_label values c \<and> col_has is_loc_high_label values c)"

definition label_inv :: "grid \<Rightarrow> label_scan \<Rightarrow> bool" where
  "label_inv values s \<longleftrightarrow>
     (\<forall>a. loc_avg_col s = Some a \<longrightarrow> col_has is_loc_avg_label values a) \<and>
     (\<forall>h. loc_high_col s = Some h \<longrightarrow> col_has is_loc_high_label values h)"

subsection \<open>Example grids\<close>

text \<open>The labels as a ledger writes them: the date word, and LOC with its qualifier.\<close>

definition l_date :: str where "l_date = w_date"
definition l_avg :: str where "l_avg = [76, 79, 67, 32] @ w_avg"
definition l_high :: str where "l_high = [76, 79, 67, 32] @ w_high"

text \<open>The date label at (5,2), the LOC average label at (5,4), the LOC high label at (6,4).\<close>

definition grid_same_col :: grid where
  "grid_same_col = [[], [], [], [], [[], l_date, [], l_avg], [[], [], [], l_high]]"

text \<open>The same with the LOC high label at (6,8).\<close>

definition grid_laid_out :: grid where
  "grid_laid_out =
     [[], [], [], [], [[], l_date, [], l_avg], [[], [], [], [], [], [], [], l_high]]"

text \<open>The LOC high label two rows below the date label.\<close>

definition grid_tall :: grid where
  "grid_tall = [[l_date, l_avg], [[], []], [[], l_high]]"

text \<open>The LOC high label fourteen columns to the right of the date label.\<close>

definition grid_wide :: grid where
  "grid_wide = [[l_date, l_avg, [], [], [], [], [], [], [], [], [], [], [], [], l_high]]"

section \<open>The anchor resolver: properties\<close>

lemma in_upt1: "r \<in> set [1 ..< n + 1] \<longleftrightarrow> 0 < r \<and> r \<le> n"
  by auto

lemma nth_pred_mem: "0 < r \<Longrightarrow> r \<le> length xs \<Longrightarrow> xs ! (r - 1) \<in> set xs"
  by (auto intro!: nth_mem)

lemma first_some_SomeD: "first_some f xs = Some y \<Longrightarrow> \<exists>x\<in>set xs. f x = Some y"
  by (induction xs) (auto split: option.splits)

lemma find_append_or_else: "find P (xs @ ys) = or_else (find P xs) (find P ys)"
  by (induction xs) (auto simp: or_else_def)

lemma first_label_append:
  "first_label P values (xs @ ys) = or_else (first_label P values xs) (first_label P values ys)"
  by (simp add: first_label_def find_append_or_else)

lemma found_avg_scan_cell:
  "found_avg (scan_cell (values ! (rr - 1)) rr cc s) =
     or_else (found_avg s) (first_label is_loc_avg_label values [(rr, cc)])"
  by (auto simp: found_avg_def scan_cell_def Let_def or_else_def first_label_def cell_at_def)

lemma found_high_scan_cell:
  "found_high (scan_cell (values ! (rr - 1)) rr cc s) =
     or_else (found_high s) (first_label is_loc_high_label values [(rr, cc)])"
  by (auto simp: found_high_def scan_cell_def Let_def or_else_def first_label_def cell_at_def)

lemma or_else_None2 [simp]: "or_else x None = x"
  by (cases x) (simp_all add: or_else_def)

lemma or_else_assoc: "or_else (or_else x y) z = or_else x (or_else y z)"
  by (cases x) (simp_all add: or_else_def)

lemma found_avg_fold:
  "found_avg (fold (scan_cell (values ! (rr - 1)) rr) cols s) =
     or_else (found_avg s) (first_label is_loc_avg_label values (map (Pair rr) cols))"
proof (induction cols arbitrary: s)
  case Nil
  show ?case by (simp add: first_label_def)
next
  case (Cons cc cols)
  let ?f = "scan_cell (values ! (rr - 1)) rr"
  have split: "first_label is_loc_avg_label values (map (Pair rr) (cc # cols)) =
        or_else (first_label is_loc_avg_label values [(rr, cc)])
                (first_label is_loc_avg_label values (map (Pair rr) cols))"
    using first_label_append [of is_loc_avg_label "values" "[(rr, cc)]" "map (Pair rr) cols"] by simp
  have "found_avg (fold ?f (cc # cols) s) = found_avg (fold ?f cols (?f cc s))"
    by simp
  also have "\<dots> = or_else (found_avg (?f cc s)) (first_label is_loc_avg_label values (map (Pair rr) cols))"
    by (rule Cons.IH)
  also have "\<dots> = or_else (found_avg s) (first_label is_loc_avg_label values (map (Pair rr) (cc # cols)))"
    by (simp only: found_avg_scan_cell split or_else_assoc)
  finally show ?case .
qed

lemma found_high_fold:
  "found_high (fold (scan_cell (values ! (rr - 1)) rr) cols s) =
     or_else (found_high s) (first_label is_loc_high_label values (map (Pair rr) cols))"
proof (induction cols arbitrary: s)
  case Nil
  show ?case by (simp add: first_label_def)
next
  case (Cons cc cols)
  let ?f = "scan_cell (values ! (rr - 1)) rr"
  have split: "first_label is_loc_high_label values (map (Pair rr) (cc # cols)) =
        or_else (first_label is_loc_high_label values [(rr, cc)])
                (first_label is_loc_high_label values (map (Pair rr) cols))"
    using first_label_append [of is_loc_high_label "values" "[(rr, cc)]" "map (Pair rr) cols"] by simp
  have "found_high (fold ?f (cc # cols) s) = found_high (fold ?f cols (?f cc s))"
    by simp
  also have "\<dots> = or_else (found_high (?f cc s)) (first_label is_loc_high_label values (map (Pair rr) cols))"
    by (rule Cons.IH)
  also have "\<dots> = or_else (found_high s) (first_label is_loc_high_label values (map (Pair rr) (cc # cols)))"
    by (simp only: found_high_scan_cell split or_else_assoc)
  finally show ?case .
qed


lemma scan_result_anchor_of:
  "(case (loc_avg s, loc_high s) of
      (Some a, Some h) \<Rightarrow> Some (max r (max (loc_avg_row s) (loc_high_row s)), c, a, h)
    | _ \<Rightarrow> X) =
   (case anchor_of r c (found_avg s) (found_high s) of Some x \<Rightarrow> Some x | None \<Rightarrow> X)"
  by (auto simp: anchor_of_def found_avg_def found_high_def split: option.splits)

lemma anchor_of_None_iff: "anchor_of r c fa fh = None \<longleftrightarrow> fa = None \<or> fh = None"
  by (auto simp: anchor_of_def split: option.splits)

lemma scan_rows_spec:
  "anchor_of r c (found_avg s) (found_high s) = None \<Longrightarrow>
   scan_rows values max_col r c rrs s =
     anchor_of r c
       (or_else (found_avg s) (first_label is_loc_avg_label values (row_cells max_col c rrs)))
       (or_else (found_high s) (first_label is_loc_high_label values (row_cells max_col c rrs)))"
proof (induction rrs arbitrary: s)
  case Nil
  then show ?case by (simp add: row_cells_def first_label_def)
next
  case (Cons rr rrs)
  let ?cols = "[c + 1 ..< min (c + 14) max_col + 1]"
  let ?s' = "fold (scan_cell (values ! (rr - 1)) rr) ?cols s"
  have cells: "row_cells max_col c (rr # rrs) = map (Pair rr) ?cols @ row_cells max_col c rrs"
    by (simp add: row_cells_def)
  have fa: "found_avg ?s' = or_else (found_avg s) (first_label is_loc_avg_label values (map (Pair rr) ?cols))"
    by (rule found_avg_fold)
  have fh: "found_high ?s' = or_else (found_high s) (first_label is_loc_high_label values (map (Pair rr) ?cols))"
    by (rule found_high_fold)
  have unfold: "scan_rows values max_col r c (rr # rrs) s =
      (case anchor_of r c (found_avg ?s') (found_high ?s') of
         Some x \<Rightarrow> Some x | None \<Rightarrow> scan_rows values max_col r c rrs ?s')"
    by (simp only: scan_rows.simps Let_def scan_result_anchor_of)
  show ?case
  proof (cases "anchor_of r c (found_avg ?s') (found_high ?s')")
    case None
    from Cons.IH [OF None] None show ?thesis
      unfolding unfold cells first_label_append fa fh
      by (simp add: or_else_assoc)
  next
    case (Some x)
    then obtain pa ph where pa: "found_avg ?s' = Some pa" and ph: "found_high ?s' = Some ph"
      by (auto simp: anchor_of_def split: option.splits)
    have "or_else (found_avg s) (first_label is_loc_avg_label values (row_cells max_col c (rr # rrs))) = Some pa"
      using pa unfolding cells first_label_append fa
      by (simp add: or_else_assoc [symmetric]) (simp add: or_else_def)
    moreover have "or_else (found_high s) (first_label is_loc_high_label values (row_cells max_col c (rr # rrs))) = Some ph"
      using ph unfolding cells first_label_append fh
      by (simp add: or_else_assoc [symmetric]) (simp add: or_else_def)
    ultimately show ?thesis
      unfolding unfold using Some pa ph by simp
  qed
qed

lemma window_scan_anchor_of:
  "window_scan values max_col row_count r c =
     anchor_of r c
       (first_label is_loc_avg_label values (window_cells max_col row_count r c))
       (first_label is_loc_high_label values (window_cells max_col row_count r c))"
  unfolding window_scan_def window_cells_def
  by (subst scan_rows_spec) (simp_all add: anchor_of_def found_avg_def found_high_def or_else_def)




lemma window_cells_bounds:
  "(rr, cc) \<in> set (window_cells max_col row_count r c) \<Longrightarrow>
     r \<le> rr \<and> rr \<le> r + 2 \<and> rr \<le> row_count \<and> c < cc \<and> cc \<le> c + 14 \<and> cc \<le> max_col"
  by (auto simp: window_cells_def row_cells_def)

lemma first_label_SomeD:
  "first_label P values cells = Some p \<Longrightarrow> p \<in> set cells \<and> P (cell_at values (fst p) (snd p))"
  by (auto simp: first_label_def find_Some_iff)

lemma not_label_empty:
  "\<not> is_loc_avg_label []" "\<not> is_loc_high_label []" "\<not> is_date_label []"
  by (simp_all add: is_loc_avg_label_def is_loc_high_label_def is_date_label_def norm_label_def
      py_strip_def py_lower_def w_loc_def w_avg_def w_high_def w_date_def w_fill_date_def)

lemma cell_at_col_has:
  assumes "P (cell_at values rr cc)" and "\<not> P []" and "0 < rr" and "rr \<le> length values" and "0 < cc"
  shows "col_has P values cc"
proof -
  from assms(3,4) have mem: "values ! (rr - 1) \<in> set values" by simp
  from assms(1,2) have "cc - 1 < length (values ! (rr - 1))" and "P (values ! (rr - 1) ! (cc - 1))"
    by (auto simp: cell_at_def Let_def split: if_splits)
  with mem assms(5) show ?thesis
    unfolding col_has_def by (intro bexI [of _ "values ! (rr - 1)"]) auto
qed

lemma window_scan_col_has:
  assumes "window_scan values max_col (length values) r c = Some (h, d, a, b)" and "0 < r"
  shows "col_has is_loc_avg_label values a \<and> col_has is_loc_high_label values b"
proof -
  let ?W = "window_cells max_col (length values) r c"
  from assms(1) obtain ra rh where
    fa: "first_label is_loc_avg_label values ?W = Some (ra, a)" and
    fh: "first_label is_loc_high_label values ?W = Some (rh, b)"
    unfolding window_scan_anchor_of anchor_of_def by (auto split: option.splits)
  from first_label_SomeD [OF fa] have a: "(ra, a) \<in> set ?W" "is_loc_avg_label (cell_at values ra a)"
    by simp_all
  from first_label_SomeD [OF fh] have b: "(rh, b) \<in> set ?W" "is_loc_high_label (cell_at values rh b)"
    by simp_all
  from window_cells_bounds [OF a(1)] assms(2) have "0 < ra" "ra \<le> length values" "0 < a" by auto
  with a(2) have A: "col_has is_loc_avg_label values a"
    by (intro cell_at_col_has [where rr = ra]) (auto simp: not_label_empty)
  from window_cells_bounds [OF b(1)] assms(2) have "0 < rh" "rh \<le> length values" "0 < b" by auto
  with b(2) have B: "col_has is_loc_high_label values b"
    by (intro cell_at_col_has [where rr = rh]) (auto simp: not_label_empty)
  from A B show ?thesis ..
qed

lemma date_first_col_has:
  assumes "date_first values max_col (length values) = Some (h, d, a, b)"
  shows "col_has is_loc_avg_label values a \<and> col_has is_loc_high_label values b"
proof -
  have "\<exists>r\<in>set [1 ..< length values + 1].
          first_some (\<lambda>c. if \<not> is_date_label (values ! (r - 1) ! (c - 1)) then None
                 else window_scan values max_col (length values) r c)
              [1 ..< length (values ! (r - 1)) + 1] = Some (h, d, a, b)"
    by (rule first_some_SomeD) (use assms in \<open>simp only: date_first_def Let_def\<close>)
  then obtain r where r: "r \<in> set [1 ..< length values + 1]" and
    inner: "first_some (\<lambda>c. if \<not> is_date_label (values ! (r - 1) ! (c - 1)) then None
                 else window_scan values max_col (length values) r c)
              [1 ..< length (values ! (r - 1)) + 1] = Some (h, d, a, b)"
    by blast
  from first_some_SomeD [OF inner] obtain c where
    "window_scan values max_col (length values) r c = Some (h, d, a, b)"
    by (auto split: if_splits)
  moreover from r have "0 < r" by (simp only: in_upt1)
  ultimately show ?thesis by (rule window_scan_col_has)
qed


lemma fold_invariant:
  "I s \<Longrightarrow> (\<And>x t. x \<in> set xs \<Longrightarrow> I t \<Longrightarrow> I (f x t)) \<Longrightarrow> I (fold f xs s)"
  by (induction xs arbitrary: s) auto

lemma label_cell_inv:
  assumes "label_inv values s" and "row \<in> set values" and "0 < c" and "c \<le> length row"
  shows "label_inv values (label_cell row r c s)"
  using assms unfolding label_inv_def label_cell_def Let_def col_has_def
  by auto

lemma label_rows_inv:
  "label_inv values s \<Longrightarrow> \<forall>r\<in>set rs. 0 < r \<and> r \<le> length values \<Longrightarrow>
   label_inv values (label_rows values rs s)"
proof (induction rs arbitrary: s)
  case Nil
  then show ?case by simp
next
  case (Cons r rs)
  let ?row = "values ! (r - 1)"
  let ?s' = "fold (label_cell ?row r) [1 ..< length ?row + 1] s"
  from Cons.prems(2) have mem: "?row \<in> set values" by (auto intro!: nth_pred_mem)
  have inv': "label_inv values ?s'"
    by (rule fold_invariant [where I = "label_inv values", OF Cons.prems(1)])
       (rule label_cell_inv, use mem in auto)
  from Cons.prems(2) have rest: "\<forall>r\<in>set rs. 0 < r \<and> r \<le> length values" by simp
  have "label_rows values (r # rs) s =
        (if loc_avg_col ?s' \<noteq> None \<and> loc_high_col ?s' \<noteq> None then ?s' else label_rows values rs ?s')"
    by (simp only: label_rows.simps Let_def)
  with inv' Cons.IH [OF inv' rest] show ?case by simp
qed

lemma first_some_pred:
  "first_some f xs = Some y \<Longrightarrow> (\<And>x z. f x = Some z \<Longrightarrow> Q z) \<Longrightarrow> Q y"
  by (induction xs) (auto split: option.splits)

lemma label_first_cols:
  assumes "label_first values row_count = Some (h, d, a, b)"
  shows "loc_avg_col (label_rows values [1 ..< row_count + 1]
            \<lparr>loc_avg_col = None, loc_high_col = None, avg_row = None, high_row = None\<rparr>) = Some a \<and>
         loc_high_col (label_rows values [1 ..< row_count + 1]
            \<lparr>loc_avg_col = None, loc_high_col = None, avg_row = None, high_row = None\<rparr>) = Some b"
proof -
  let ?s = "label_rows values [1 ..< row_count + 1]
            \<lparr>loc_avg_col = None, loc_high_col = None, avg_row = None, high_row = None\<rparr>"
  show ?thesis
  proof (cases "loc_avg_col ?s")
    case None
    with assms show ?thesis by (simp only: label_first_def Let_def prod.case option.case option.distinct)
  next
    case a0: (Some a0)
    show ?thesis
    proof (cases "loc_high_col ?s")
      case None
      with assms a0 show ?thesis by (simp only: label_first_def Let_def prod.case option.case option.distinct)
    next
      case h0: (Some h0)
      from assms have "snd (snd (h, d, a, b)) = (a0, h0)"
        apply (simp only: label_first_def Let_def a0 h0 prod.case option.case)
        apply (erule first_some_pred)
        apply (erule first_some_pred)
        apply (simp only: split: if_splits)
         apply (simp only: option.distinct)
        apply (erule first_some_pred)
        apply (auto split: if_splits)
        done
      with a0 h0 show ?thesis by simp
    qed
  qed
qed

lemma label_first_col_has:
  assumes "label_first values (length values) = Some (h, d, a, b)"
  shows "col_has is_loc_avg_label values a \<and> col_has is_loc_high_label values b"
proof -
  let ?s0 = "\<lparr>loc_avg_col = None, loc_high_col = None, avg_row = None, high_row = None\<rparr>"
  let ?s = "label_rows values [1 ..< length values + 1] ?s0"
  have "label_inv values ?s"
    by (rule label_rows_inv) (simp_all add: label_inv_def in_upt1 del: upt_Suc)
  moreover from assms have "loc_avg_col ?s = Some a \<and> loc_high_col ?s = Some b"
    by (rule label_first_cols)
  ultimately show ?thesis by (simp add: label_inv_def)
qed

lemma find_header_col_has:
  assumes "find_header_row_and_columns values = Inr (h, d, a, b)"
  shows "col_has is_loc_avg_label values a \<and> col_has is_loc_high_label values b"
  using assms date_first_col_has label_first_col_has
  unfolding find_header_row_and_columns_def Let_def
  by (auto split: if_splits option.splits)

lemma fold_max_ge: "(m::nat) \<le> fold max xs m"
proof (induction xs arbitrary: m)
  case Nil
  show ?case by simp
next
  case (Cons x xs)
  have "m \<le> max x m" by simp
  also have "\<dots> \<le> fold max xs (max x m)" by (rule Cons.IH)
  finally show ?case by simp
qed

lemma length_le_fold_max: "row \<in> set rows \<Longrightarrow> length row \<le> fold max (map length rows) m"
proof (induction rows arbitrary: m)
  case Nil
  then show ?case by simp
next
  case (Cons x rows)
  show ?case
  proof (cases "row = x")
    case True
    have "length x \<le> max (length x) m" by simp
    also have "\<dots> \<le> fold max (map length rows) (max (length x) m)" by (rule fold_max_ge)
    finally show ?thesis using True by simp
  next
    case False
    with Cons.prems have "row \<in> set rows" by simp
    then show ?thesis using Cons.IH by simp
  qed
qed

lemma set_upt1: "set [a ..< b + 1] = {a .. b}"
  by auto

lemma set_pairs: "set (concat (map (\<lambda>rr. map (Pair rr) cols) rrs)) = set rrs \<times> set cols"
  by (induction rrs) auto

lemma set_window_cells:
  "set (window_cells max_col row_count r c) =
     {r .. min (r + 2) row_count} \<times> {c + 1 .. min (c + 14) max_col}"
  unfolding window_cells_def row_cells_def set_pairs set_upt1 ..

subsection \<open>C4: the window of the date-first phase\<close>

text \<open>
  C4, as the code has it. For a date label at \<^verbatim>\<open>(r, c)\<close> the search looks at the cells of
  the rows \<^verbatim>\<open>r\<close> to \<^verbatim>\<open>r + 2\<close> (three rows, cut at the last row of the grid) and of the
  columns \<^verbatim>\<open>c + 1\<close> to \<^verbatim>\<open>c + 14\<close> (fourteen columns, cut at the widest row), and at no
  other cell. The LOC average column is that of the first cell of the window, row by row,
  with the LOC average label, the LOC high column that of the first cell with the LOC
  high label, each found without regard to the other; the search succeeds when both
  exist, and the header row is then the largest of \<^verbatim>\<open>r\<close> and the rows of the two matches.
\<close>

theorem window_scan_first_matches:
  "window_scan values max_col row_count r c =
     anchor_of r c
       (first_label is_loc_avg_label values (window_cells max_col row_count r c))
       (first_label is_loc_high_label values (window_cells max_col row_count r c)) \<and>
   set (window_cells max_col row_count r c) =
     {r .. min (r + 2) row_count} \<times> {c + 1 .. min (c + 14) max_col}"
proof
  show "window_scan values max_col row_count r c =
     anchor_of r c
       (first_label is_loc_avg_label values (window_cells max_col row_count r c))
       (first_label is_loc_high_label values (window_cells max_col row_count r c))"
    by (rule window_scan_anchor_of)
  show "set (window_cells max_col row_count r c) =
     {r .. min (r + 2) row_count} \<times> {c + 1 .. min (c + 14) max_col}"
    by (rule set_window_cells)
qed

text \<open>
  The theorem on \<^verbatim>\<open>grid_wide\<close>, for the date label at (1,1): the first cells with the
  LOC labels are (1,2) and (1,15), and the anchor has the header row 1.
\<close>

theorem window_scan_first_matches_witness:
  "first_label is_loc_avg_label grid_wide (window_cells 15 1 1 1) = Some (1, 2) \<and>
   first_label is_loc_high_label grid_wide (window_cells 15 1 1 1) = Some (1, 15) \<and>
   window_scan grid_wide 15 1 1 1 = Some (1, 1, 2, 15)"
proof -
  have fa: "first_label is_loc_avg_label grid_wide (window_cells 15 1 1 1) = Some (1, 2)"
    by code_simp
  have fh: "first_label is_loc_high_label grid_wide (window_cells 15 1 1 1) = Some (1, 15)"
    by code_simp
  from window_scan_first_matches [of grid_wide 15 1 1 1]
  have "window_scan grid_wide 15 1 1 1 = anchor_of 1 1 (Some (1, 2)) (Some (1, 15))"
    unfolding fa fh by (rule conjunct1)
  with fa fh show ?thesis by (simp add: anchor_of_def)
qed

text \<open>
  C4 as the specification words it, a window of two rows and thirteen columns, fails. In
  \<^verbatim>\<open>grid_tall\<close> the date label is at (1,1) and the only LOC high label is in row 3, which
  is not one of two rows at or after row 1, and the search succeeds with the header row 3.
  In \<^verbatim>\<open>grid_wide\<close> the only LOC high label is in column 15, the fourteenth column after
  column 1, and the search succeeds with it.
\<close>

theorem window_two_rows_thirteen_columns_counterexample:
  "is_date_label (grid_tall ! 0 ! 0) \<and>
   window_scan grid_tall 2 3 1 1 = Some (3, 1, 2, 2) \<and>
   find_header_row_and_columns grid_tall = Inr (3, 1, 2, 2) \<and>
   \<not> (3 \<le> (1::nat) + 1) \<and>
   is_date_label (grid_wide ! 0 ! 0) \<and>
   window_scan grid_wide 15 1 1 1 = Some (1, 1, 2, 15) \<and>
   find_header_row_and_columns grid_wide = Inr (1, 1, 2, 15) \<and>
   \<not> (15 \<le> (1::nat) + 13)"
  by code_simp

subsection \<open>C2: the two zone columns of an anchor\<close>

text \<open>
  C2 as the specification words it fails: the resolver compares the two columns nowhere.
  On the grid with the date label at (5,2), the LOC average label at (5,4) and the LOC
  high label at (6,4) it returns the anchor with the header row 6, the date column 2 and
  both zone columns 4.
\<close>

theorem equal_zone_columns_counterexample:
  "is_date_label (grid_same_col ! 4 ! 1) \<and>
   is_loc_avg_label (grid_same_col ! 4 ! 3) \<and>
   is_loc_high_label (grid_same_col ! 5 ! 3) \<and>
   find_header_row_and_columns grid_same_col = Inr (6, 2, 4, 4)"
  by code_simp

text \<open>
  C2, as the code has it. The LOC average column of a returned anchor holds a cell with
  the LOC average label and the LOC high column a cell with the LOC high label, so the
  two columns differ whenever no column of the grid holds both a cell with the one label
  and a cell with the other.
\<close>

theorem anchor_columns_distinct:
  assumes "find_header_row_and_columns values = Inr (h, d, a, b)"
    and "\<not> shared_label_column values"
  shows "a \<noteq> b"
proof
  assume "a = b"
  with find_header_col_has [OF assms(1)] have
    A: "col_has is_loc_avg_label values a" and B: "col_has is_loc_high_label values a"
    by simp_all
  from A obtain row where "row \<in> set values" "0 < a" "a \<le> length row"
    by (auto simp: col_has_def)
  then have "a \<le> fold max (map length values) 0"
    using length_le_fold_max [of row "values" 0] by simp
  with \<open>0 < a\<close> have "a \<in> set [1 ..< fold max (map length values) 0 + 1]"
    by (simp only: in_upt1)
  with A B have "shared_label_column values"
    unfolding shared_label_column_def by blast
  with assms(2) show False ..
qed

text \<open>
  The theorem on the grid that is laid out as the specification asks, with the LOC high
  label at (6,8): the anchor has the zone columns 4 and 8.
\<close>

theorem anchor_columns_distinct_witness:
  "find_header_row_and_columns grid_laid_out = Inr (6, 2, 4, 8) \<and>
   \<not> shared_label_column grid_laid_out \<and> (4::nat) \<noteq> 8"
proof -
  have found: "find_header_row_and_columns grid_laid_out = Inr (6, 2, 4, 8)"
    by code_simp
  have apart: "\<not> shared_label_column grid_laid_out"
    by code_simp
  from anchor_columns_distinct [OF found apart] found apart show ?thesis by simp
qed

end
